theory Spec2Isabelle
  imports Main "HOL-Library.Sublist" "HOL-Library.AList"
begin

section \<open>JavaScript values and string primitives used by the comparators\<close>

text \<open>
  The two comparator classes (\<^verbatim>\<open>SimpleMigrationComparator\<close>, the reduced variant capped at
  ten pages, and \<^verbatim>\<open>MigrationComparator\<close>, the full variant) are ordinary JavaScript. Strings
  are modelled as \<^typ>\<open>string\<close>; one \<^typ>\<open>char\<close> stands for one code unit (the URLs a browser
  serialises in \<^verbatim>\<open>link.href\<close> are ASCII). A property read from an object yields a string,
  \<^verbatim>\<open>null\<close> or \<^verbatim>\<open>undefined\<close>.
\<close>

datatype jsval = Undefined | Null | Str string

text \<open>\<^verbatim>\<open>url.startsWith(baseUrl)\<close> and \<^verbatim>\<open>array.includes(x)\<close>.\<close>

definition startsWith :: "string \<Rightarrow> string \<Rightarrow> bool" where
  "startsWith url baseUrl = prefix baseUrl url"

definition array_includes :: "'a list \<Rightarrow> 'a \<Rightarrow> bool" where
  "array_includes xs x = (x \<in> set xs)"

text \<open>
  \<^verbatim>\<open>String.prototype.replace(searchValue, replaceValue)\<close> with two string arguments replaces
  the first occurrence of \<^verbatim>\<open>searchValue\<close> only, and the replacement text is not taken
  literally: it is expanded by the language's \<^verbatim>\<open>GetSubstitution\<close>, where \<^verbatim>\<open>$$\<close> stands for
  a dollar sign, \<^verbatim>\<open>$&\<close> for the matched text, \<^verbatim>\<open>$`\<close> for the text before the match and
  \<^verbatim>\<open>$'\<close> for the text after it. With a string pattern there are no capture groups, so
  \<^verbatim>\<open>$1\<close>, \<^verbatim>\<open>$<name>\<close> and a lone \<^verbatim>\<open>$\<close> are copied unchanged.
\<close>

fun getSubstitution :: "string \<Rightarrow> string \<Rightarrow> string \<Rightarrow> string \<Rightarrow> string" where
  "getSubstitution matched preceding following [] = []"
| "getSubstitution matched preceding following [c] = [c]"
| "getSubstitution matched preceding following (c # d # rest) =
     (if c = CHR ''$'' \<and> d = CHR ''$'' then
        CHR ''$'' # getSubstitution matched preceding following rest
      else if c = CHR ''$'' \<and> d = CHR ''&'' then
        matched @ getSubstitution matched preceding following rest
      else if c = CHR ''$'' \<and> d = CHR 0x60 then
        preceding @ getSubstitution matched preceding following rest
      else if c = CHR ''$'' \<and> d = CHR 0x27 then
        following @ getSubstitution matched preceding following rest
      else c # getSubstitution matched preceding following (d # rest))"

text \<open>
  \<^verbatim>\<open>StringIndexOf\<close>: the text before and after the first occurrence of the pattern, scanning
  from the left; \<open>None\<close> when the pattern does not occur.
\<close>

fun splitAtFirst :: "string \<Rightarrow> string \<Rightarrow> string \<Rightarrow> (string \<times> string) option" where
  "splitAtFirst searchValue seen [] =
     (if searchValue = [] then Some (seen, []) else None)"
| "splitAtFirst searchValue seen (c # cs) =
     (if prefix searchValue (c # cs) then Some (seen, drop (length searchValue) (c # cs))
      else splitAtFirst searchValue (seen @ [c]) cs)"

definition string_replace :: "string \<Rightarrow> string \<Rightarrow> string \<Rightarrow> string" where
  "string_replace searchValue replaceValue str =
     (case splitAtFirst searchValue [] str of
        None \<Rightarrow> str
      | Some (preceding, following) \<Rightarrow>
          preceding @ getSubstitution searchValue preceding following replaceValue @ following)"

text \<open>
  \<^verbatim>\<open>url.replace(/[^a-zA-Z0-9]/g, '_')\<close>: every code unit outside the three ranges becomes an
  underscore (the replacement holds no dollar sign, so it is literal).
\<close>

definition alnum :: "char \<Rightarrow> bool" where
  "alnum c =
     (let n = (of_char c :: nat)
      in (97 \<le> n \<and> n \<le> 122) \<or> (65 \<le> n \<and> n \<le> 90) \<or> (48 \<le> n \<and> n \<le> 57))"

definition urlKey :: "string \<Rightarrow> string" where
  "urlKey url = map (\<lambda>c. if alnum c then c else CHR ''_'') url"

text \<open>
  The rewrite of the reconciler, \<^verbatim>\<open>url.replace(this.oldDomain, this.newDomain)\<close>, as both
  \<^verbatim>\<open>compareWebsites\<close> methods write it.
\<close>

definition rewrite :: "string \<Rightarrow> string \<Rightarrow> string \<Rightarrow> string" where
  "rewrite oldDomain newDomain url = string_replace oldDomain newDomain url"

section \<open>Sets, objects and the awaited loop\<close>

text \<open>
  A JavaScript \<^verbatim>\<open>Set\<close> keeps its members in insertion order and \<^verbatim>\<open>Array.from\<close> reads them
  in that order, so a set is the list of its members, oldest first, without repetition.
\<close>

definition set_has :: "'a list \<Rightarrow> 'a \<Rightarrow> bool" where
  "set_has members x = (x \<in> set members)"

definition set_add :: "'a \<Rightarrow> 'a list \<Rightarrow> 'a list" where
  "set_add x members = (if x \<in> set members then members else members @ [x])"

text \<open>\<^verbatim>\<open>[...new Set(urlArray)]\<close> and \<^verbatim>\<open>pageUrls.forEach(url => allUrls.add(url))\<close>.\<close>

definition add_all :: "'a list \<Rightarrow> 'a list \<Rightarrow> 'a list" where
  "add_all xs members = foldl (\<lambda>acc x. set_add x acc) members xs"

definition new_Set :: "'a list \<Rightarrow> 'a list" where
  "new_Set xs = add_all xs []"

text \<open>
  A plain object used as a dictionary (\<^verbatim>\<open>htmlSnapshots[urlKey] = html\<close>) is an association
  list: \<^const>\<open>AList.update\<close> overwrites the value of a key that is present and appends a new
  key, \<^const>\<open>map_of\<close> reads. A property that is absent reads as \<^verbatim>\<open>undefined\<close>.
\<close>

definition get_prop :: "(string \<times> jsval) list \<Rightarrow> string \<Rightarrow> jsval" where
  "get_prop obj key = (case map_of obj key of None \<Rightarrow> Undefined | Some v \<Rightarrow> v)"

text \<open>
  A crawl of the full variant need not end (a site can link to new pages for ever), so the
  recursion carries fuel: the number of nested \<^verbatim>\<open>crawlPage\<close> calls it may still open. A
  run either finishes, or is cut where the fuel ran out, with the state it had reached.
\<close>

datatype 'a run = Finished 'a | OutOfFuel 'a

fun state_of :: "'a run \<Rightarrow> 'a" where
  "state_of (Finished s) = s"
| "state_of (OutOfFuel s) = s"

fun finished :: "'a run \<Rightarrow> bool" where
  "finished (Finished s) = True"
| "finished (OutOfFuel s) = False"

text \<open>\<^verbatim>\<open>for (const x of xs) { await body(x) }\<close> over a state.\<close>

fun for_of :: "('a \<Rightarrow> 's \<Rightarrow> 's run) \<Rightarrow> 'a list \<Rightarrow> 's \<Rightarrow> 's run" where
  "for_of body [] s = Finished s"
| "for_of body (x # xs) s =
     (case body x s of
        Finished s' \<Rightarrow> for_of body xs s'
      | OutOfFuel s' \<Rightarrow> OutOfFuel s')"

section \<open>The crawler\<close>

text \<open>
  What the browser does for one page is an input of the model. Inside the \<^verbatim>\<open>try\<close> block
  of \<^verbatim>\<open>crawlPage\<close> the calls that can throw come in this order: loading the page
  (\<^verbatim>\<open>puppeteer.launch\<close>, \<^verbatim>\<open>isConnected\<close>, \<^verbatim>\<open>initialize\<close>, \<^verbatim>\<open>page.goto\<close>, \<^verbatim>\<open>page.content\<close>), then,
  after the snapshot is stored, reading the links (\<^verbatim>\<open>page.evaluate\<close>). \<open>Loaded html hrefs\<close>
  carries the markup and \<^verbatim>\<open>document.links\<close> mapped to \<^verbatim>\<open>href\<close>, in document order.
  Every throw lands in the \<^verbatim>\<open>catch\<close> block of the same call, which logs it (the full variant
  may launch the browser anew there) and leaves the sets and the snapshots as they are.
\<close>

datatype page_load =
    FetchFailed
  | LinksFailed string
  | Loaded string "string list"

record crawl_state =
  allUrls :: "string list"
  visitedUrls :: "string list"
  htmlSnapshots :: "(string \<times> string) list"

record simple_crawl_state = crawl_state +
  pageCount :: nat

record crawl_data =
  urls :: "string list"
  snapshots :: "(string \<times> string) list"

text \<open>\<^verbatim>\<open>MigrationComparator.crawlWebsite\<close> and its inner \<^verbatim>\<open>crawlPage\<close> (no page budget).\<close>

fun crawlPage ::
  "nat \<Rightarrow> (string \<Rightarrow> page_load) \<Rightarrow> string \<Rightarrow> string \<Rightarrow> crawl_state \<Rightarrow> crawl_state run" where
  "crawlPage 0 render baseUrl url s = OutOfFuel s"
| "crawlPage (Suc fuel) render baseUrl url s =
     (if set_has (visitedUrls s) url \<or> \<not> startsWith url baseUrl then Finished s
      else
        let s = s\<lparr>visitedUrls := set_add url (visitedUrls s)\<rparr> in
        (case render url of
           FetchFailed \<Rightarrow> Finished s
         | LinksFailed html \<Rightarrow>
             Finished (s\<lparr>htmlSnapshots := AList.update (urlKey url) html (htmlSnapshots s)\<rparr>)
         | Loaded html hrefs \<Rightarrow>
             let s = s\<lparr>htmlSnapshots := AList.update (urlKey url) html (htmlSnapshots s)\<rparr>;
                 pageUrls = filter (\<lambda>u. startsWith u baseUrl) (new_Set hrefs);
                 s = s\<lparr>allUrls := add_all pageUrls (allUrls s)\<rparr>
             in for_of
                  (\<lambda>newUrl s.
                     if \<not> set_has (visitedUrls s) newUrl
                     then crawlPage fuel render baseUrl newUrl s
                     else Finished s)
                  pageUrls s))"

definition crawl_start :: crawl_state where
  "crawl_start = \<lparr>allUrls = [], visitedUrls = [], htmlSnapshots = []\<rparr>"

definition crawlWebsite :: "nat \<Rightarrow> (string \<Rightarrow> page_load) \<Rightarrow> string \<Rightarrow> crawl_data option" where
  "crawlWebsite fuel render baseUrl =
     (case crawlPage fuel render baseUrl baseUrl crawl_start of
        Finished s \<Rightarrow> Some \<lparr>urls = allUrls s, snapshots = htmlSnapshots s\<rparr>
      | OutOfFuel s \<Rightarrow> None)"

text \<open>
  \<^verbatim>\<open>SimpleMigrationComparator.crawlWebsite(baseUrl, maxPages = 10)\<close>. The page budget is a
  count of pages, a natural number. This variant launches a browser for every page and
  closes it after the links were added to \<^verbatim>\<open>allUrls\<close>; \<open>closes url\<close> tells whether that
  \<^verbatim>\<open>browser.close()\<close> returns or throws.
\<close>

fun simple_crawlPage ::
  "nat \<Rightarrow> (string \<Rightarrow> page_load) \<Rightarrow> (string \<Rightarrow> bool) \<Rightarrow> string \<Rightarrow> nat \<Rightarrow> string
     \<Rightarrow> simple_crawl_state \<Rightarrow> simple_crawl_state run" where
  "simple_crawlPage 0 render closes baseUrl maxPages url s = OutOfFuel s"
| "simple_crawlPage (Suc fuel) render closes baseUrl maxPages url s =
     (if set_has (visitedUrls s) url \<or> \<not> startsWith url baseUrl \<or> pageCount s \<ge> maxPages
      then Finished s
      else
        let s = s\<lparr>visitedUrls := set_add url (visitedUrls s)\<rparr>;
            s = s\<lparr>pageCount := pageCount s + 1\<rparr> in
        (case render url of
           FetchFailed \<Rightarrow> Finished s
         | LinksFailed html \<Rightarrow>
             Finished (s\<lparr>htmlSnapshots := AList.update (urlKey url) html (htmlSnapshots s)\<rparr>)
         | Loaded html hrefs \<Rightarrow>
             let s = s\<lparr>htmlSnapshots := AList.update (urlKey url) html (htmlSnapshots s)\<rparr>;
                 pageUrls = filter (\<lambda>u. startsWith u baseUrl) (new_Set hrefs);
                 s = s\<lparr>allUrls := add_all pageUrls (allUrls s)\<rparr>
             in if \<not> closes url then Finished s
                else for_of
                  (\<lambda>newUrl s.
                     if \<not> set_has (visitedUrls s) newUrl \<and> pageCount s < maxPages
                     then simple_crawlPage fuel render closes baseUrl maxPages newUrl s
                     else Finished s)
                  pageUrls s))"

definition simple_crawl_start :: simple_crawl_state where
  "simple_crawl_start = \<lparr>allUrls = [], visitedUrls = [], htmlSnapshots = [], pageCount = 0\<rparr>"

definition simple_crawlWebsite ::
  "nat \<Rightarrow> (string \<Rightarrow> page_load) \<Rightarrow> (string \<Rightarrow> bool) \<Rightarrow> string \<Rightarrow> nat \<Rightarrow> crawl_data option" where
  "simple_crawlWebsite fuel render closes baseUrl maxPages =
     (case simple_crawlPage fuel render closes baseUrl maxPages baseUrl simple_crawl_start of
        Finished s \<Rightarrow> Some \<lparr>urls = allUrls s, snapshots = htmlSnapshots s\<rparr>
      | OutOfFuel s \<Rightarrow> None)"

section \<open>Field extraction\<close>

text \<open>
  \<^verbatim>\<open>extractPageInfo\<close> hands the markup to a browser page (\<^verbatim>\<open>setContent\<close>) and queries the
  resulting document. The browser's parser is an input of the model: \<open>setContent html\<close> is
  the document it builds, or \<open>None\<close> when a call inside the \<^verbatim>\<open>try\<close> block throws
  (\<^verbatim>\<open>newPage\<close>, \<^verbatim>\<open>setContent\<close>, \<^verbatim>\<open>evaluate\<close>, \<^verbatim>\<open>close\<close>). Of a document the code reads the
  title and \<^verbatim>\<open>querySelector\<close>; of an element \<^verbatim>\<open>getAttribute\<close>, which is \<^verbatim>\<open>null\<close> (\<open>None\<close>)
  for an attribute the element does not have, and \<^verbatim>\<open>textContent\<close>.
\<close>

record element =
  getAttribute :: "string \<Rightarrow> string option"
  textContent :: string

record document =
  title :: string
  querySelector :: "string \<Rightarrow> element option"

type_synonym pageInfo = "(string \<times> jsval) list"

text \<open>
  \<^verbatim>\<open>String.prototype.trim\<close> strips white space and line terminators from both ends; of
  those, the code units a \<^typ>\<open>char\<close> can hold are 9 to 13, 32 and 160.
\<close>

definition whitespace :: "char \<Rightarrow> bool" where
  "whitespace c =
     (let n = (of_char c :: nat) in (9 \<le> n \<and> n \<le> 13) \<or> n = 32 \<or> n = 160)"

definition trim :: "string \<Rightarrow> string" where
  "trim str = rev (dropWhile whitespace (rev (dropWhile whitespace str)))"

text \<open>\<^verbatim>\<open>a || b\<close> on strings: the empty string is falsy.\<close>

definition or_else :: "string \<Rightarrow> string \<Rightarrow> string" where
  "or_else a b = (if a \<noteq> [] then a else b)"

definition getMetaContent :: "document \<Rightarrow> string \<Rightarrow> jsval" where
  "getMetaContent doc name =
     (case querySelector doc
             (''meta[name=\"'' @ name @ ''\"], meta[property=\"'' @ name @ ''\"]'') of
        None \<Rightarrow> Str []
      | Some meta \<Rightarrow>
          (case getAttribute meta ''content'' of None \<Rightarrow> Null | Some content \<Rightarrow> Str content))"

definition getTextContent :: "document \<Rightarrow> string \<Rightarrow> string" where
  "getTextContent doc selector =
     (case querySelector doc selector of
        None \<Rightarrow> []
      | Some element \<Rightarrow> trim (textContent element))"

text \<open>\<^verbatim>\<open>MigrationComparator.extractPageInfo(html, url)\<close>; the URL is only logged.\<close>

definition extractPageInfo ::
  "(string \<Rightarrow> document option) \<Rightarrow> string \<Rightarrow> string \<Rightarrow> pageInfo" where
  "extractPageInfo setContent html url' =
     (case setContent html of
        Some doc \<Rightarrow>
          [(''title'', Str (title doc)),
           (''description'', getMetaContent doc ''description''),
           (''keywords'', getMetaContent doc ''keywords''),
           (''h1'', Str (getTextContent doc ''h1'')),
           (''h2'', Str (getTextContent doc ''h2'')),
           (''mainContent'',
              Str (or_else (getTextContent doc ''main'') (getTextContent doc ''body''))),
           (''canonical'', getMetaContent doc ''canonical''),
           (''robots'', getMetaContent doc ''robots''),
           (''ogTitle'', getMetaContent doc ''og:title''),
           (''ogDescription'', getMetaContent doc ''og:description''),
           (''ogImage'', getMetaContent doc ''og:image''),
           (''twitterCard'', getMetaContent doc ''twitter:card''),
           (''twitterTitle'', getMetaContent doc ''twitter:title''),
           (''twitterDescription'', getMetaContent doc ''twitter:description'')]
      | None \<Rightarrow>
          [(''title'', Str []),
           (''description'', Str []),
           (''keywords'', Str []),
           (''h1'', Str []),
           (''h2'', Str []),
           (''mainContent'', Str []),
           (''canonical'', Str []),
           (''robots'', Str []),
           (''ogTitle'', Str []),
           (''ogDescription'', Str []),
           (''ogImage'', Str []),
           (''twitterCard'', Str []),
           (''twitterTitle'', Str []),
           (''twitterDescription'', Str [])])"

text \<open>\<^verbatim>\<open>SimpleMigrationComparator.extractPageInfo(html, url)\<close>.\<close>

definition simple_extractPageInfo ::
  "(string \<Rightarrow> document option) \<Rightarrow> string \<Rightarrow> string \<Rightarrow> pageInfo" where
  "simple_extractPageInfo setContent html url' =
     (case setContent html of
        Some doc \<Rightarrow>
          [(''title'', Str (title doc)),
           (''description'', getMetaContent doc ''description''),
           (''keywords'', getMetaContent doc ''keywords''),
           (''h1'', Str (getTextContent doc ''h1'')),
           (''h2'', Str (getTextContent doc ''h2'')),
           (''canonical'', getMetaContent doc ''canonical''),
           (''robots'', getMetaContent doc ''robots''),
           (''ogTitle'', getMetaContent doc ''og:title''),
           (''ogDescription'', getMetaContent doc ''og:description'')]
      | None \<Rightarrow>
          [(''title'', Str []),
           (''description'', Str []),
           (''keywords'', Str []),
           (''h1'', Str []),
           (''h2'', Str []),
           (''canonical'', Str []),
           (''robots'', Str []),
           (''ogTitle'', Str []),
           (''ogDescription'', Str [])])"

section \<open>Field comparison\<close>

record change =
  field :: string
  old :: jsval
  new :: jsval
  type :: string

record differences =
  url :: string
  changes :: "change list"

text \<open>
  The closure \<^verbatim>\<open>compareField\<close> pushes onto \<^verbatim>\<open>differences.changes\<close>; here it takes and
  returns \<^verbatim>\<open>differences\<close>. \<^verbatim>\<open>!==\<close> on strings, \<^verbatim>\<open>null\<close> and \<^verbatim>\<open>undefined\<close> is inequality.
\<close>

definition compareField :: "string \<Rightarrow> jsval \<Rightarrow> jsval \<Rightarrow> differences \<Rightarrow> differences" where
  "compareField field' oldValue newValue differences =
     (if oldValue \<noteq> newValue then
        differences\<lparr>changes := changes differences @
          [\<lparr>field = field', old = oldValue, new = newValue, type = ''content_change''\<rparr>]\<rparr>
      else differences)"

text \<open>\<^verbatim>\<open>MigrationComparator.comparePageInfo(oldInfo, newInfo, url)\<close>.\<close>

definition comparePageInfo :: "pageInfo \<Rightarrow> pageInfo \<Rightarrow> string \<Rightarrow> differences" where
  "comparePageInfo oldInfo newInfo url' =
     (let differences = \<lparr>url = url', changes = []\<rparr>;
         differences =
           compareField ''title'' (get_prop oldInfo ''title'') (get_prop newInfo ''title'')
             differences;
         differences =
           compareField ''description'' (get_prop oldInfo ''description'') (get_prop newInfo ''description'')
             differences;
         differences =
           compareField ''keywords'' (get_prop oldInfo ''keywords'') (get_prop newInfo ''keywords'')
             differences;
         differences =
           compareField ''h1'' (get_prop oldInfo ''h1'') (get_prop newInfo ''h1'')
             differences;
         differences =
           compareField ''h2'' (get_prop oldInfo ''h2'') (get_prop newInfo ''h2'')
             differences;
         differences =
           compareField ''canonical'' (get_prop oldInfo ''canonical'') (get_prop newInfo ''canonical'')
             differences;
         differences =
           compareField ''robots'' (get_prop oldInfo ''robots'') (get_prop newInfo ''robots'')
             differences;
         differences =
           compareField ''ogTitle'' (get_prop oldInfo ''ogTitle'') (get_prop newInfo ''ogTitle'')
             differences;
         differences =
           compareField ''ogDescription'' (get_prop oldInfo ''ogDescription'') (get_prop newInfo ''ogDescription'')
             differences;
         differences =
           compareField ''ogImage'' (get_prop oldInfo ''ogImage'') (get_prop newInfo ''ogImage'')
             differences;
         differences =
           compareField ''twitterCard'' (get_prop oldInfo ''twitterCard'') (get_prop newInfo ''twitterCard'')
             differences;
         differences =
           compareField ''twitterTitle'' (get_prop oldInfo ''twitterTitle'') (get_prop newInfo ''twitterTitle'')
             differences;
         differences =
           compareField ''twitterDescription'' (get_prop oldInfo ''twitterDescription'') (get_prop newInfo ''twitterDescription'')
             differences
      in differences)"

text \<open>\<^verbatim>\<open>SimpleMigrationComparator.comparePageInfo(oldInfo, newInfo, url)\<close>.\<close>

definition simple_comparePageInfo :: "pageInfo \<Rightarrow> pageInfo \<Rightarrow> string \<Rightarrow> differences" where
  "simple_comparePageInfo oldInfo newInfo url' =
     (let differences = \<lparr>url = url', changes = []\<rparr>;
         differences =
           compareField ''title'' (get_prop oldInfo ''title'') (get_prop newInfo ''title'')
             differences;
         differences =
           compareField ''description'' (get_prop oldInfo ''description'') (get_prop newInfo ''description'')
             differences;
         differences =
           compareField ''keywords'' (get_prop oldInfo ''keywords'') (get_prop newInfo ''keywords'')
             differences;
         differences =
           compareField ''h1'' (get_prop oldInfo ''h1'') (get_prop newInfo ''h1'')
             differences;
         differences =
           compareField ''h2'' (get_prop oldInfo ''h2'') (get_prop newInfo ''h2'')
             differences;
         differences =
           compareField ''canonical'' (get_prop oldInfo ''canonical'') (get_prop newInfo ''canonical'')
             differences;
         differences =
           compareField ''robots'' (get_prop oldInfo ''robots'') (get_prop newInfo ''robots'')
             differences;
         differences =
           compareField ''ogTitle'' (get_prop oldInfo ''ogTitle'') (get_prop newInfo ''ogTitle'')
             differences;
         differences =
           compareField ''ogDescription'' (get_prop oldInfo ''ogDescription'') (get_prop newInfo ''ogDescription'')
             differences
      in differences)"

section \<open>Reconciliation and the report\<close>

text \<open>
  \<^verbatim>\<open>this\<close> holds the two domains given to the constructor. Both \<^verbatim>\<open>compareWebsites\<close> methods
  run the same statements after their two crawls; \<open>compareCrawled\<close> is that text, with the
  variant's \<^verbatim>\<open>extractPageInfo\<close> and \<^verbatim>\<open>comparePageInfo\<close> as parameters and \<^verbatim>\<open>new Date()\<close> as
  the input \<open>now\<close>. Launching the browser and writing the snapshot and report files are
  left to the environment: they do not change the returned object, and when one of them
  throws the method returns no report.
\<close>

record comparator =
  oldDomain :: string
  newDomain :: string

record testInfo = comparator +
  timestamp :: string

record summary =
  oldWebsiteUrls :: nat
  newWebsiteUrls :: nat
  missingUrls :: nat
  newUrls :: nat
  pagesWithChanges :: nat

record seoImpact =
  pagesWithTitleChanges :: nat
  pagesWithDescriptionChanges :: nat
  pagesWithCanonicalChanges :: nat

record results =
  testInfo :: testInfo
  summary :: summary
  missingUrls :: "string list"
  newUrls :: "string list"
  pageComparisons :: "differences list"
  seoImpact :: seoImpact

text \<open>
  The loop over \<^verbatim>\<open>commonUrls\<close>. \<^verbatim>\<open>oldData.snapshots[oldUrlKey] && newData.snapshots[newUrlKey]\<close>
  is true when both keys are present with a non-empty string.
\<close>

fun comparePages ::
  "(string \<Rightarrow> string \<Rightarrow> pageInfo) \<Rightarrow> (pageInfo \<Rightarrow> pageInfo \<Rightarrow> string \<Rightarrow> differences) \<Rightarrow> comparator
     \<Rightarrow> crawl_data \<Rightarrow> crawl_data \<Rightarrow> string list \<Rightarrow> differences list \<Rightarrow> differences list" where
  "comparePages extract compare this oldData newData [] acc = acc"
| "comparePages extract compare this oldData newData (oldUrl # rest) acc =
     (let newUrl = rewrite (oldDomain this) (newDomain this) oldUrl;
          oldUrlKey = urlKey oldUrl;
          newUrlKey = urlKey newUrl
      in case (map_of (snapshots oldData) oldUrlKey, map_of (snapshots newData) newUrlKey) of
           (Some oldHtml, Some newHtml) \<Rightarrow>
             if oldHtml \<noteq> [] \<and> newHtml \<noteq> [] then
               let oldInfo = extract oldHtml oldUrl;
                   newInfo = extract newHtml newUrl;
                   comparison = compare oldInfo newInfo newUrl
               in comparePages extract compare this oldData newData rest
                    (if length (changes comparison) > 0 then acc @ [comparison] else acc)
             else comparePages extract compare this oldData newData rest acc
         | _ \<Rightarrow> comparePages extract compare this oldData newData rest acc)"

definition compareCrawled ::
  "(string \<Rightarrow> string \<Rightarrow> pageInfo) \<Rightarrow> (pageInfo \<Rightarrow> pageInfo \<Rightarrow> string \<Rightarrow> differences) \<Rightarrow> comparator
     \<Rightarrow> string \<Rightarrow> crawl_data \<Rightarrow> crawl_data \<Rightarrow> results" where
  "compareCrawled extract compare this now oldData newData =
     (let oldUrlsConverted =
            map (\<lambda>u. rewrite (oldDomain this) (newDomain this) u) (urls oldData);
          missing = filter (\<lambda>u. \<not> array_includes (urls newData) u) oldUrlsConverted;
          fresh = filter (\<lambda>u. \<not> array_includes oldUrlsConverted u) (urls newData);
          commonUrls =
            filter (\<lambda>u. array_includes (urls newData)
                           (rewrite (oldDomain this) (newDomain this) u))
              (urls oldData);
          compared = comparePages extract compare this oldData newData commonUrls []
      in \<lparr>testInfo =
            \<lparr>oldDomain = oldDomain this, newDomain = newDomain this, timestamp = now\<rparr>,
          summary =
            \<lparr>oldWebsiteUrls = length (urls oldData),
             newWebsiteUrls = length (urls newData),
             missingUrls = length missing,
             newUrls = length fresh,
             pagesWithChanges = length compared\<rparr>,
          missingUrls = missing,
          newUrls = fresh,
          pageComparisons = compared,
          seoImpact =
            \<lparr>pagesWithTitleChanges =
               length (filter (\<lambda>p. list_ex (\<lambda>c. field c = ''title'') (changes p)) compared),
             pagesWithDescriptionChanges =
               length (filter (\<lambda>p. list_ex (\<lambda>c. field c = ''description'') (changes p)) compared),
             pagesWithCanonicalChanges =
               length (filter (\<lambda>p. list_ex (\<lambda>c. field c = ''canonical'') (changes p)) compared)\<rparr>\<rparr>)"

text \<open>
  \<^verbatim>\<open>MigrationComparator.compareWebsites()\<close>: crawl the old site, crawl the new site, compare.
  No report is returned when a crawl does not finish within the fuel.
\<close>

definition compareWebsites ::
  "nat \<Rightarrow> (string \<Rightarrow> page_load) \<Rightarrow> (string \<Rightarrow> page_load) \<Rightarrow> (string \<Rightarrow> document option)
     \<Rightarrow> string \<Rightarrow> comparator \<Rightarrow> results option" where
  "compareWebsites fuel renderOld renderNew setContent now this =
     (case crawlWebsite fuel renderOld (oldDomain this) of
        None \<Rightarrow> None
      | Some oldData \<Rightarrow>
          (case crawlWebsite fuel renderNew (newDomain this) of
             None \<Rightarrow> None
           | Some newData \<Rightarrow>
               Some (compareCrawled (extractPageInfo setContent) comparePageInfo
                       this now oldData newData)))"

text \<open>
  \<^verbatim>\<open>SimpleMigrationComparator.compareWebsites()\<close>: the same, with a budget of ten pages for
  each crawl.
\<close>

definition simple_compareWebsites ::
  "nat \<Rightarrow> (string \<Rightarrow> page_load) \<Rightarrow> (string \<Rightarrow> bool) \<Rightarrow> (string \<Rightarrow> page_load) \<Rightarrow> (string \<Rightarrow> bool)
     \<Rightarrow> (string \<Rightarrow> document option) \<Rightarrow> string \<Rightarrow> comparator \<Rightarrow> results option" where
  "simple_compareWebsites fuel renderOld closesOld renderNew closesNew setContent now this =
     (case simple_crawlWebsite fuel renderOld closesOld (oldDomain this) 10 of
        None \<Rightarrow> None
      | Some oldData \<Rightarrow>
          (case simple_crawlWebsite fuel renderNew closesNew (newDomain this) 10 of
             None \<Rightarrow> None
           | Some newData \<Rightarrow>
               Some (compareCrawled (simple_extractPageInfo setContent) simple_comparePageInfo
                       this now oldData newData)))"

section \<open>Notions the properties are stated with\<close>

text \<open>
  The field names \<^verbatim>\<open>comparePageInfo\<close> passes to \<^verbatim>\<open>compareField\<close>, in the order of the
  calls, for the full and for the reduced variant, and the keys of the object the full
  \<^verbatim>\<open>extractPageInfo\<close> returns.
\<close>

definition tracked_fields :: "string list" where
  "tracked_fields = [''title'', ''description'', ''keywords'', ''h1'', ''h2'', ''canonical'', ''robots'',
     ''ogTitle'', ''ogDescription'', ''ogImage'', ''twitterCard'', ''twitterTitle'',
     ''twitterDescription'']"

definition simple_tracked_fields :: "string list" where
  "simple_tracked_fields = [''title'', ''description'', ''keywords'', ''h1'', ''h2'', ''canonical'',
     ''robots'', ''ogTitle'', ''ogDescription'']"

definition extracted_fields :: "string list" where
  "extracted_fields = [''title'', ''description'', ''keywords'', ''h1'', ''h2'', ''mainContent'',
     ''canonical'', ''robots'', ''ogTitle'', ''ogDescription'', ''ogImage'', ''twitterCard'',
     ''twitterTitle'', ''twitterDescription'']"

text \<open>The change record of one field, and a change with its two values exchanged.\<close>

definition change_of :: "pageInfo \<Rightarrow> pageInfo \<Rightarrow> string \<Rightarrow> change" where
  "change_of oldInfo newInfo f =
     \<lparr>field = f, old = get_prop oldInfo f, new = get_prop newInfo f, type = ''content_change''\<rparr>"

definition swap_change :: "change \<Rightarrow> change" where
  "swap_change c = c\<lparr>old := new c, new := old c\<rparr>"

text \<open>The number of comparison results that hold a change of field \<open>f\<close>.\<close>

definition pagesChanging :: "string \<Rightarrow> differences list \<Rightarrow> nat" where
  "pagesChanging f comparisons =
     length (filter (\<lambda>p. f \<in> set (map field (changes p))) comparisons)"

section \<open>Example sites\<close>

text \<open>
  Small sites on which the model is run. On the old site two pages differ only in a
  character that is not alphanumeric; one page of the flaky site cannot be loaded and one
  fails while its links are read. Markup is abbreviated to a tag that the example parser
  maps to a document.
\<close>

definition old_site :: "string \<Rightarrow> page_load" where
  "old_site u =
     (if u = ''http://o/'' then
        Loaded ''o-home''
          [''http://o/a-b'', ''http://o/a_b'', ''http://elsewhere/'', ''http://o/a-b'']
      else if u = ''http://o/a-b'' then Loaded ''o-dash'' [''http://o/'']
      else if u = ''http://o/a_b'' then Loaded ''o-under'' []
      else FetchFailed)"

definition new_site :: "string \<Rightarrow> page_load" where
  "new_site u =
     (if u = ''http://n/'' then Loaded ''n-home'' [''http://n/a-b'', ''http://n/a_b'']
      else if u = ''http://n/a-b'' then Loaded ''n-dash'' [''http://n/'']
      else if u = ''http://n/a_b'' then Loaded ''n-under'' []
      else FetchFailed)"

definition flaky_site :: "string \<Rightarrow> page_load" where
  "flaky_site u =
     (if u = ''http://f/'' then
        Loaded ''f-home'' [''http://f/down'', ''http://f/half'', ''http://f/up'']
      else if u = ''http://f/down'' then FetchFailed
      else if u = ''http://f/half'' then LinksFailed ''f-half''
      else if u = ''http://f/up'' then Loaded ''f-up'' [''http://f/down'']
      else FetchFailed)"

definition titled :: "string \<Rightarrow> document" where
  "titled t = \<lparr>title = t, querySelector = (\<lambda>selector. None)\<rparr>"

definition example_dom :: "string \<Rightarrow> document option" where
  "example_dom html =
     (if html = ''o-home'' then Some (titled ''Home'')
      else if html = ''n-home'' then Some (titled ''Welcome'')
      else if html = ''o-dash'' then Some (titled ''Dash'')
      else if html = ''n-dash'' then Some (titled ''Dash, edited'')
      else if html = ''o-under'' then Some (titled ''Under'')
      else if html = ''n-under'' then Some (titled ''Under'')
      else None)"

definition example_comparator :: comparator where
  "example_comparator = \<lparr>oldDomain = ''http://o/'', newDomain = ''http://n/''\<rparr>"

definition meta_without_content :: document where
  "meta_without_content =
     \<lparr>title = ''Page'',
      querySelector = (\<lambda>selector.
        if selector = ''meta[name=\"description\"], meta[property=\"description\"]''
        then Some \<lparr>getAttribute = (\<lambda>name. if name = ''name'' then Some ''description'' else None),
                   textContent = ''''\<rparr>
        else None)\<rparr>"

definition keywords_dom :: "string \<Rightarrow> document option" where
  "keywords_dom html =
     Some \<lparr>title = ''Page'',
           querySelector = (\<lambda>selector.
             if selector = ''meta[name=\"keywords\"], meta[property=\"keywords\"]''
             then Some \<lparr>getAttribute = (\<lambda>name. if name = ''content'' then Some html else None),
                        textContent = ''''\<rparr>
             else None)\<rparr>"

section \<open>The URL rewrite\<close>

lemma splitAtFirst_prefix:
  "splitAtFirst searchValue seen (searchValue @ p) = Some (seen, p)"
  by (cases searchValue; cases p) simp_all

lemma getSubstitution_literal:
  "CHR ''$'' \<notin> set replaceValue \<Longrightarrow>
     getSubstitution matched preceding following replaceValue = replaceValue"
  by (induction matched preceding following replaceValue rule: getSubstitution.induct) auto

lemma rewrite_prefix_general:
  "rewrite od nd (od @ p) = getSubstitution od [] p nd @ p"
  by (simp add: rewrite_def string_replace_def splitAtFirst_prefix)

lemma rewrite_without_dollar:
  "CHR ''$'' \<notin> set nd \<Longrightarrow> rewrite od nd (od @ p) = nd @ p"
  by (simp add: rewrite_prefix_general getSubstitution_literal)

text \<open>
  Claim C1: for every URL made of the old domain and a suffix \<open>p\<close>, the rewrite is the
  new domain followed by \<open>p\<close>. The code does this whenever the new domain holds no
  dollar sign (\<open>rewrite_without_dollar\<close>), but the new domain is passed to \<^verbatim>\<open>replace\<close> as a replacement pattern: with the new domain
  \<^verbatim>\<open>http://n.test/$&\<close> the old URL \<^verbatim>\<open>http://o.test/a\<close> is rewritten to
  \<^verbatim>\<open>http://n.test/http://o.test/a\<close>, not to \<^verbatim>\<open>http://n.test/$&/a\<close>.
\<close>

theorem rewrite_expands_dollar_pattern:
  "rewrite ''http://o.test'' ''http://n.test/$&'' (''http://o.test'' @ ''/a'')
     = ''http://n.test/http://o.test/a''
   \<and> rewrite ''http://o.test'' ''http://n.test/$&'' (''http://o.test'' @ ''/a'')
     \<noteq> ''http://n.test/$&'' @ ''/a''"
  by (simp add: rewrite_def string_replace_def)

section \<open>Invariants of the crawl\<close>

text \<open>
  A property of the state that the three assignments of \<^verbatim>\<open>crawlPage\<close> keep (marking a page
  visited, storing a snapshot, adding links) holds of the state of every run, finished or
  cut: by induction on the fuel, with the loop over the links of a page as inner induction.
\<close>

lemma for_of_invariant:
  assumes step: "\<And>x s. P s \<Longrightarrow> P (state_of (body x s))"
  shows "P s \<Longrightarrow> P (state_of (for_of body xs s))"
proof (induction xs arbitrary: s)
  case Nil
  then show ?case by simp
next
  case (Cons x xs)
  from step [OF Cons.prems, of x] show ?case
    by (cases "body x s") (simp_all add: Cons.IH)
qed

lemma for_of_finished:
  assumes step: "\<And>x s. Q s \<Longrightarrow> finished (body x s) \<and> Q (state_of (body x s))"
  shows "Q s \<Longrightarrow> finished (for_of body xs s) \<and> Q (state_of (for_of body xs s))"
proof (induction xs arbitrary: s)
  case Nil
  then show ?case by simp
next
  case (Cons x xs)
  from step [OF Cons.prems, of x] show ?case
    by (cases "body x s") (simp_all add: Cons.IH)
qed

lemma crawlPage_invariant:
  assumes visit: "\<And>s u. P s \<Longrightarrow> u \<notin> set (visitedUrls s) \<Longrightarrow> startsWith u baseUrl \<Longrightarrow>
                    P (s\<lparr>visitedUrls := visitedUrls s @ [u]\<rparr>)"
    and snapshot: "\<And>s k html. P s \<Longrightarrow> P (s\<lparr>htmlSnapshots := AList.update k html (htmlSnapshots s)\<rparr>)"
    and links: "\<And>s us. P s \<Longrightarrow> P (s\<lparr>allUrls := add_all (filter (\<lambda>v. startsWith v baseUrl) us) (allUrls s)\<rparr>)"
  shows "P s \<Longrightarrow> P (state_of (crawlPage fuel render baseUrl u s))"
proof (induction fuel arbitrary: u s)
  case 0
  then show ?case by simp
next
  case (Suc fuel)
  show ?case
  proof (cases "set_has (visitedUrls s) u \<or> \<not> startsWith u baseUrl")
    case True
    with Suc.prems show ?thesis by simp
  next
    case False
    let ?s1 = "s\<lparr>visitedUrls := set_add u (visitedUrls s)\<rparr>"
    from False Suc.prems have s1: "P ?s1"
      by (simp add: visit set_has_def set_add_def)
    show ?thesis
    proof (cases "render u")
      case FetchFailed
      with False s1 show ?thesis by (simp add: Let_def)
    next
      case (LinksFailed html)
      with False snapshot [OF s1] show ?thesis by (simp add: Let_def)
    next
      case (Loaded html hrefs)
      have "P (state_of (for_of
              (\<lambda>newUrl s. if \<not> set_has (visitedUrls s) newUrl
                           then crawlPage fuel render baseUrl newUrl s else Finished s)
              xs t))" if "P t" for xs t
        using that by (rule for_of_invariant [rotated]) (simp add: Suc.IH)
      with False links [OF snapshot [OF s1]] Loaded show ?thesis by (simp add: Let_def)
    qed
  qed
qed

lemma simple_crawlPage_invariant:
  assumes visit: "\<And>s u. P s \<Longrightarrow> u \<notin> set (visitedUrls s) \<Longrightarrow> startsWith u baseUrl \<Longrightarrow>
                    pageCount s < maxPages \<Longrightarrow>
                    P (s\<lparr>visitedUrls := visitedUrls s @ [u], pageCount := Suc (pageCount s)\<rparr>)"
    and snapshot: "\<And>s k html. P s \<Longrightarrow> P (s\<lparr>htmlSnapshots := AList.update k html (htmlSnapshots s)\<rparr>)"
    and links: "\<And>s us. P s \<Longrightarrow> P (s\<lparr>allUrls := add_all (filter (\<lambda>v. startsWith v baseUrl) us) (allUrls s)\<rparr>)"
  shows "P s \<Longrightarrow> P (state_of (simple_crawlPage fuel render closes baseUrl maxPages u s))"
proof (induction fuel arbitrary: u s)
  case 0
  then show ?case by simp
next
  case (Suc fuel)
  show ?case
  proof (cases "set_has (visitedUrls s) u \<or> \<not> startsWith u baseUrl \<or> pageCount s \<ge> maxPages")
    case True
    with Suc.prems show ?thesis by simp
  next
    case False
    let ?s1 = "s\<lparr>visitedUrls := set_add u (visitedUrls s), pageCount := Suc (pageCount s)\<rparr>"
    from False Suc.prems have s1: "P ?s1"
      by (simp add: visit set_has_def set_add_def)
    show ?thesis
    proof (cases "render u")
      case FetchFailed
      with False s1 show ?thesis by (simp add: Let_def)
    next
      case (LinksFailed html)
      with False snapshot [OF s1] show ?thesis by (simp add: Let_def)
    next
      case (Loaded html hrefs)
      have "P (state_of (for_of
              (\<lambda>newUrl s. if \<not> set_has (visitedUrls s) newUrl \<and> pageCount s < maxPages
                           then simple_crawlPage fuel render closes baseUrl maxPages newUrl s
                           else Finished s)
              xs t))" if "P t" for xs t
        using that by (rule for_of_invariant [rotated]) (simp add: Suc.IH)
      with False links [OF snapshot [OF s1]] Loaded show ?thesis by (simp add: Let_def)
    qed
  qed
qed

lemma crawlPage_scoped:
  "list_all (\<lambda>v. startsWith v baseUrl) (visitedUrls s) \<Longrightarrow>
     list_all (\<lambda>v. startsWith v baseUrl) (visitedUrls (state_of (crawlPage fuel render baseUrl u s)))"
  by (rule crawlPage_invariant [where P = "\<lambda>s. list_all (\<lambda>v. startsWith v baseUrl) (visitedUrls s)"]) simp_all

lemma simple_crawlPage_scoped:
  "list_all (\<lambda>v. startsWith v baseUrl) (visitedUrls s) \<Longrightarrow>
     list_all (\<lambda>v. startsWith v baseUrl)
       (visitedUrls (state_of (simple_crawlPage fuel render closes baseUrl maxPages u s)))"
  by (rule simple_crawlPage_invariant
        [where P = "\<lambda>s. list_all (\<lambda>v. startsWith v baseUrl) (visitedUrls s)"]) simp_all

lemma crawlPage_visited_distinct:
  "distinct (visitedUrls s) \<Longrightarrow> distinct (visitedUrls (state_of (crawlPage fuel render baseUrl u s)))"
  by (rule crawlPage_invariant [where P = "\<lambda>s. distinct (visitedUrls s)"]) simp_all

lemma crawlPage_visited_grows:
  "prefix (visitedUrls s) (visitedUrls (state_of (crawlPage fuel render baseUrl u s)))"
  by (rule crawlPage_invariant [where P = "\<lambda>t. prefix (visitedUrls s) (visitedUrls t)"]) simp_all

lemma simple_crawlPage_visited_grows:
  "prefix (visitedUrls s)
     (visitedUrls (state_of (simple_crawlPage fuel render closes baseUrl maxPages u s)))"
  by (rule simple_crawlPage_invariant [where P = "\<lambda>t. prefix (visitedUrls s) (visitedUrls t)"])
     simp_all

lemma simple_crawlPage_budget:
  "distinct (visitedUrls s) \<and> length (visitedUrls s) = pageCount s \<and> pageCount s \<le> maxPages \<Longrightarrow>
   distinct (visitedUrls (state_of (simple_crawlPage fuel render closes baseUrl maxPages u s)))
   \<and> length (visitedUrls (state_of (simple_crawlPage fuel render closes baseUrl maxPages u s)))
       = pageCount (state_of (simple_crawlPage fuel render closes baseUrl maxPages u s))
   \<and> pageCount (state_of (simple_crawlPage fuel render closes baseUrl maxPages u s)) \<le> maxPages"
  by (rule simple_crawlPage_invariant
        [where P = "\<lambda>s. distinct (visitedUrls s) \<and> length (visitedUrls s) = pageCount s
                         \<and> pageCount s \<le> maxPages"]) simp_all

lemma simple_crawlPage_finishes:
  "maxPages - pageCount s < fuel \<Longrightarrow>
     finished (simple_crawlPage fuel render closes baseUrl maxPages u s)
     \<and> pageCount s \<le> pageCount (state_of (simple_crawlPage fuel render closes baseUrl maxPages u s))"
proof (induction fuel arbitrary: u s)
  case 0
  then show ?case by simp
next
  case (Suc fuel)
  show ?case
  proof (cases "set_has (visitedUrls s) u \<or> \<not> startsWith u baseUrl \<or> pageCount s \<ge> maxPages")
    case True
    then show ?thesis by simp
  next
    case False
    show ?thesis
    proof (cases "render u")
      case FetchFailed
      with False show ?thesis by (simp add: Let_def)
    next
      case (LinksFailed html)
      with False show ?thesis by (simp add: Let_def)
    next
      case (Loaded html hrefs)
      let ?body = "\<lambda>newUrl s. if \<not> set_has (visitedUrls s) newUrl \<and> pageCount s < maxPages
                           then simple_crawlPage fuel render closes baseUrl maxPages newUrl s
                           else Finished s"
      have body: "finished (?body x t) \<and> Suc (pageCount s) \<le> pageCount (state_of (?body x t))"
        if "Suc (pageCount s) \<le> pageCount t" for x t
      proof (cases "\<not> set_has (visitedUrls t) x \<and> pageCount t < maxPages")
        case True
        with that Suc.prems have "maxPages - pageCount t < fuel" by arith
        from Suc.IH [OF this, of x] that True show ?thesis by simp
      next
        case False
        with that show ?thesis by auto
      qed
      have "finished (for_of ?body xs t) \<and> Suc (pageCount s) \<le> pageCount (state_of (for_of ?body xs t))"
        if "Suc (pageCount s) \<le> pageCount t" for xs t
        using that by (rule for_of_finished [rotated]) (rule body)
      from this [of "s\<lparr>visitedUrls := set_add u (visitedUrls s), pageCount := Suc (pageCount s),
                       htmlSnapshots := AList.update (urlKey u) html (htmlSnapshots s),
                       allUrls := add_all (filter (\<lambda>v. startsWith v baseUrl) (new_Set hrefs)) (allUrls s)\<rparr>"
                    "filter (\<lambda>v. startsWith v baseUrl) (new_Set hrefs)"]
      have "finished (for_of ?body (filter (\<lambda>v. startsWith v baseUrl) (new_Set hrefs))
               (s\<lparr>visitedUrls := set_add u (visitedUrls s), pageCount := Suc (pageCount s),
                       htmlSnapshots := AList.update (urlKey u) html (htmlSnapshots s),
                       allUrls := add_all (filter (\<lambda>v. startsWith v baseUrl) (new_Set hrefs)) (allUrls s)\<rparr>))
            \<and> pageCount s \<le> pageCount (state_of (for_of ?body (filter (\<lambda>v. startsWith v baseUrl) (new_Set hrefs))
               (s\<lparr>visitedUrls := set_add u (visitedUrls s), pageCount := Suc (pageCount s),
                       htmlSnapshots := AList.update (urlKey u) html (htmlSnapshots s),
                       allUrls := add_all (filter (\<lambda>v. startsWith v baseUrl) (new_Set hrefs)) (allUrls s)\<rparr>)))"
        by simp
      with False Loaded show ?thesis by (simp add: Let_def)
    qed
  qed
qed

section \<open>Scope and budget of the crawl\<close>

text \<open>
  Claim C2: in every crawl, every URL in the visited set has \<open>baseUrl\<close> as a prefix, at
  every point of the traversal. The theorem is about the state of a run of either variant
  from the empty state, with any fuel, any site and any base URL: the final state of a run
  that finishes and the state in which a run is cut. A call of \<^verbatim>\<open>crawlPage\<close>, from any
  state and on any URL, only appends to the visited list (the last two conjuncts), so the
  visited set at an earlier point of a run is contained in the one at every later point.
\<close>

theorem visited_urls_have_base_prefix:
  "(\<forall>v \<in> set (visitedUrls (state_of (crawlPage fuel render baseUrl baseUrl crawl_start))).
      prefix baseUrl v)
   \<and> (\<forall>v \<in> set (visitedUrls (state_of
          (simple_crawlPage fuel render closes baseUrl maxPages baseUrl simple_crawl_start))).
      prefix baseUrl v)
   \<and> prefix (visitedUrls s) (visitedUrls (state_of (crawlPage fuel render baseUrl u s)))
   \<and> prefix (visitedUrls t)
       (visitedUrls (state_of (simple_crawlPage fuel render closes baseUrl maxPages u t)))"
proof -
  have "list_all (\<lambda>v. startsWith v baseUrl)
          (visitedUrls (state_of (crawlPage fuel render baseUrl baseUrl crawl_start)))"
    by (rule crawlPage_scoped) (simp add: crawl_start_def)
  moreover have "list_all (\<lambda>v. startsWith v baseUrl)
          (visitedUrls (state_of
             (simple_crawlPage fuel render closes baseUrl maxPages baseUrl simple_crawl_start)))"
    by (rule simple_crawlPage_scoped) (simp add: simple_crawl_start_def)
  ultimately show ?thesis
    by (simp add: list_all_iff startsWith_def crawlPage_visited_grows
        simple_crawlPage_visited_grows)
qed

theorem visited_urls_have_base_prefix_witness:
  "''http://o/a-b'' \<in> set (visitedUrls (state_of (crawlPage 3 old_site ''http://o/'' ''http://o/'' crawl_start)))
   \<and> prefix ''http://o/'' ''http://o/a-b''
   \<and> ''http://f/down'' \<in> set (visitedUrls (state_of
         (simple_crawlPage 3 flaky_site (\<lambda>u. True) ''http://f/'' 10 ''http://f/'' simple_crawl_start)))
   \<and> prefix ''http://f/'' ''http://f/down''"
proof -
  have a: "''http://o/a-b'' \<in> set (visitedUrls (state_of (crawlPage 3 old_site ''http://o/'' ''http://o/'' crawl_start)))"
    by code_simp
  have b: "''http://f/down'' \<in> set (visitedUrls (state_of
         (simple_crawlPage 3 flaky_site (\<lambda>u. True) ''http://f/'' 10 ''http://f/'' simple_crawl_start)))"
    by code_simp
  from visited_urls_have_base_prefix [where fuel = 3 and render = old_site and baseUrl = "''http://o/''"] a
  have "prefix ''http://o/'' ''http://o/a-b''" by blast
  moreover
  from visited_urls_have_base_prefix [where fuel = 3 and render = flaky_site and baseUrl = "''http://f/''"
      and closes = "\<lambda>u. True" and maxPages = 10] b
  have "prefix ''http://f/'' ''http://f/down''" by blast
  ultimately show ?thesis using a b by blast
qed

text \<open>
  Claim C3: with a page budget \<open>maxPages\<close> the visited set never holds more than
  \<open>maxPages\<close> entries, and with \<open>maxPages = 0\<close> the crawl returns with the visited set,
  the discovered URLs and the snapshots all empty. The budget exists in the reduced
  variant. The visited list has no repetition, so its length is the size of the set; the
  bound holds for the state of every run, finished or cut, and a call only appends to the
  visited list (the last conjunct), so the bound holds at every earlier point too. A run
  with more fuel than the budget always finishes: a budgeted crawl returns.
\<close>

theorem page_budget_bounds_visited:
  "length (visitedUrls (state_of
       (simple_crawlPage fuel render closes baseUrl maxPages baseUrl simple_crawl_start))) \<le> maxPages
   \<and> distinct (visitedUrls (state_of
       (simple_crawlPage fuel render closes baseUrl maxPages baseUrl simple_crawl_start)))
   \<and> finished (simple_crawlPage (Suc (maxPages + extra)) render closes baseUrl maxPages baseUrl
         simple_crawl_start)
   \<and> simple_crawlPage (Suc fuel) render closes baseUrl 0 baseUrl simple_crawl_start
       = Finished \<lparr>allUrls = [], visitedUrls = [], htmlSnapshots = [], pageCount = 0\<rparr>
   \<and> simple_crawlWebsite (Suc fuel) render closes baseUrl 0 = Some \<lparr>urls = [], snapshots = []\<rparr>
   \<and> prefix (visitedUrls t)
       (visitedUrls (state_of (simple_crawlPage fuel render closes baseUrl maxPages u t)))"
proof -
  have "distinct (visitedUrls simple_crawl_start)
        \<and> length (visitedUrls simple_crawl_start) = pageCount simple_crawl_start
        \<and> pageCount simple_crawl_start \<le> maxPages"
    by (simp add: simple_crawl_start_def)
  from simple_crawlPage_budget [OF this, of fuel render closes baseUrl baseUrl]
  have bound: "length (visitedUrls (state_of
       (simple_crawlPage fuel render closes baseUrl maxPages baseUrl simple_crawl_start))) \<le> maxPages"
    and dist: "distinct (visitedUrls (state_of
       (simple_crawlPage fuel render closes baseUrl maxPages baseUrl simple_crawl_start)))"
    by simp_all
  have "maxPages - pageCount simple_crawl_start < Suc (maxPages + extra)"
    by simp
  from simple_crawlPage_finishes [OF this]
  have fin: "finished (simple_crawlPage (Suc (maxPages + extra)) render closes baseUrl maxPages baseUrl
         simple_crawl_start)"
    by simp
  have zero: "simple_crawlPage (Suc fuel) render closes baseUrl 0 baseUrl simple_crawl_start
       = Finished \<lparr>allUrls = [], visitedUrls = [], htmlSnapshots = [], pageCount = 0\<rparr>"
    by (simp add: simple_crawl_start_def)
  have "simple_crawlWebsite (Suc fuel) render closes baseUrl 0 = Some \<lparr>urls = [], snapshots = []\<rparr>"
    by (simp add: simple_crawlWebsite_def simple_crawl_start_def)
  with bound dist fin zero show ?thesis
    by (simp add: simple_crawlPage_visited_grows)
qed

theorem page_budget_bounds_visited_witness:
  "length (visitedUrls (state_of
       (simple_crawlPage 3 flaky_site (\<lambda>u. True) ''http://f/'' 2 ''http://f/'' simple_crawl_start))) = 2
   \<and> finished (simple_crawlPage 3 flaky_site (\<lambda>u. True) ''http://f/'' 2 ''http://f/'' simple_crawl_start)"
proof -
  have "2 \<le> length (visitedUrls (state_of
       (simple_crawlPage 3 flaky_site (\<lambda>u. True) ''http://f/'' 2 ''http://f/'' simple_crawl_start)))"
    by code_simp
  with page_budget_bounds_visited [where fuel = 3 and render = flaky_site and closes = "\<lambda>u. True"
      and baseUrl = "''http://f/''" and maxPages = 2 and extra = 0]
  show ?thesis by (simp add: numeral_3_eq_3)
qed

section \<open>A page that fails\<close>

text \<open>
  Claim C9 says that no snapshot is stored for a page whose rendering fails. The snapshot
  is stored between \<^verbatim>\<open>page.content()\<close> and the \<^verbatim>\<open>page.evaluate\<close> that reads the
  links. When that second call throws, the page has failed and its snapshot is there: on the
  flaky site the page \<^verbatim>\<open>http://f/half\<close> ends with a snapshot, in both variants.
\<close>

theorem links_failure_keeps_snapshot:
  "flaky_site ''http://f/half'' = LinksFailed ''f-half''
   \<and> crawlPage 1 flaky_site ''http://f/'' ''http://f/half'' crawl_start
       = Finished \<lparr>allUrls = [], visitedUrls = [''http://f/half''],
                    htmlSnapshots = [(''http___f_half'', ''f-half'')]\<rparr>
   \<and> simple_crawlPage 1 flaky_site (\<lambda>u. True) ''http://f/'' 10 ''http://f/half'' simple_crawl_start
       = Finished \<lparr>allUrls = [], visitedUrls = [''http://f/half''],
                    htmlSnapshots = [(''http___f_half'', ''f-half'')], pageCount = 1\<rparr>"
  by code_simp

text \<open>
  Claim C9, amended: a page that fails is caught locally. For a URL that passes the guard
  of \<^verbatim>\<open>crawlPage\<close> (not visited, in scope, the budget not used up) and whose load fails,
  either before the markup is captured or while the links are read, the call returns
  normally with the URL appended to the visited set and nothing added to the discovered
  URLs; no snapshot is stored when the failure came before the markup was captured, and
  the page's snapshot is stored when it came while the links were read. The loop over the
  links of the parent page goes on with the remaining links, and a later call on the same
  URL returns at once, so the page is not tried again.
\<close>

theorem page_failure_is_local:
  assumes "\<not> set_has (visitedUrls s) u" and "\<not> set_has (visitedUrls t) u"
    and "startsWith u baseUrl" and "pageCount t < maxPages"
    and "render u = FetchFailed \<or> render u = LinksFailed html"
  shows
    "crawlPage (Suc fuel) render baseUrl u s
       = Finished (s\<lparr>visitedUrls := visitedUrls s @ [u],
                     htmlSnapshots := (if render u = FetchFailed then htmlSnapshots s
                                       else AList.update (urlKey u) html (htmlSnapshots s))\<rparr>)
     \<and> simple_crawlPage (Suc fuel) render closes baseUrl maxPages u t
       = Finished (t\<lparr>visitedUrls := visitedUrls t @ [u], pageCount := pageCount t + 1,
                     htmlSnapshots := (if render u = FetchFailed then htmlSnapshots t
                                       else AList.update (urlKey u) html (htmlSnapshots t))\<rparr>)
     \<and> for_of (\<lambda>newUrl s. if \<not> set_has (visitedUrls s) newUrl
                          then crawlPage (Suc fuel) render baseUrl newUrl s else Finished s)
          (u # rest) s
       = for_of (\<lambda>newUrl s. if \<not> set_has (visitedUrls s) newUrl
                          then crawlPage (Suc fuel) render baseUrl newUrl s else Finished s)
          rest (state_of (crawlPage (Suc fuel) render baseUrl u s))
     \<and> for_of (\<lambda>newUrl s. if \<not> set_has (visitedUrls s) newUrl \<and> pageCount s < maxPages
                          then simple_crawlPage (Suc fuel) render closes baseUrl maxPages newUrl s
                          else Finished s)
          (u # rest) t
       = for_of (\<lambda>newUrl s. if \<not> set_has (visitedUrls s) newUrl \<and> pageCount s < maxPages
                          then simple_crawlPage (Suc fuel) render closes baseUrl maxPages newUrl s
                          else Finished s)
          rest (state_of (simple_crawlPage (Suc fuel) render closes baseUrl maxPages u t))
     \<and> crawlPage (Suc fuel) render baseUrl u
          (state_of (crawlPage (Suc fuel) render baseUrl u s))
       = Finished (state_of (crawlPage (Suc fuel) render baseUrl u s))
     \<and> simple_crawlPage (Suc fuel) render closes baseUrl maxPages u
          (state_of (simple_crawlPage (Suc fuel) render closes baseUrl maxPages u t))
       = Finished (state_of (simple_crawlPage (Suc fuel) render closes baseUrl maxPages u t))"
proof -
  have full: "crawlPage (Suc fuel) render baseUrl u s
       = Finished (s\<lparr>visitedUrls := visitedUrls s @ [u],
                     htmlSnapshots := (if render u = FetchFailed then htmlSnapshots s
                                       else AList.update (urlKey u) html (htmlSnapshots s))\<rparr>)"
    using assms by (auto simp add: set_has_def set_add_def Let_def)
  have simple: "simple_crawlPage (Suc fuel) render closes baseUrl maxPages u t
       = Finished (t\<lparr>visitedUrls := visitedUrls t @ [u], pageCount := pageCount t + 1,
                     htmlSnapshots := (if render u = FetchFailed then htmlSnapshots t
                                       else AList.update (urlKey u) html (htmlSnapshots t))\<rparr>)"
    using assms by (auto simp add: set_has_def set_add_def Let_def)
  have loop: "for_of (\<lambda>newUrl s. if \<not> set_has (visitedUrls s) newUrl
                          then crawlPage (Suc fuel) render baseUrl newUrl s else Finished s)
          (u # rest) s
       = for_of (\<lambda>newUrl s. if \<not> set_has (visitedUrls s) newUrl
                          then crawlPage (Suc fuel) render baseUrl newUrl s else Finished s)
          rest (state_of (crawlPage (Suc fuel) render baseUrl u s))"
    using assms(1) by (simp add: full del: crawlPage.simps)
  have simple_loop: "for_of (\<lambda>newUrl s. if \<not> set_has (visitedUrls s) newUrl \<and> pageCount s < maxPages
                          then simple_crawlPage (Suc fuel) render closes baseUrl maxPages newUrl s
                          else Finished s)
          (u # rest) t
       = for_of (\<lambda>newUrl s. if \<not> set_has (visitedUrls s) newUrl \<and> pageCount s < maxPages
                          then simple_crawlPage (Suc fuel) render closes baseUrl maxPages newUrl s
                          else Finished s)
          rest (state_of (simple_crawlPage (Suc fuel) render closes baseUrl maxPages u t))"
    using assms(2,4) by (simp add: simple del: simple_crawlPage.simps)
  have again: "crawlPage (Suc fuel) render baseUrl u
          (state_of (crawlPage (Suc fuel) render baseUrl u s))
       = Finished (state_of (crawlPage (Suc fuel) render baseUrl u s))"
    unfolding full by (simp add: set_has_def)
  have simple_again: "simple_crawlPage (Suc fuel) render closes baseUrl maxPages u
          (state_of (simple_crawlPage (Suc fuel) render closes baseUrl maxPages u t))
       = Finished (state_of (simple_crawlPage (Suc fuel) render closes baseUrl maxPages u t))"
    unfolding simple by (simp add: set_has_def)
  from full simple loop simple_loop again simple_again show ?thesis
    by (intro conjI)
qed

theorem page_failure_is_local_witness:
  "\<not> set_has (visitedUrls crawl_start) ''http://f/down''
   \<and> startsWith ''http://f/down'' ''http://f/''
   \<and> pageCount simple_crawl_start < 10
   \<and> flaky_site ''http://f/down'' = FetchFailed
   \<and> crawlPage (Suc 0) flaky_site ''http://f/'' ''http://f/down'' crawl_start
       = Finished \<lparr>allUrls = [], visitedUrls = [''http://f/down''], htmlSnapshots = []\<rparr>
   \<and> simple_crawlPage (Suc 0) flaky_site (\<lambda>u. True) ''http://f/'' 10 ''http://f/down''
         simple_crawl_start
       = Finished \<lparr>allUrls = [], visitedUrls = [''http://f/down''], htmlSnapshots = [],
                    pageCount = 1\<rparr>"
proof -
  have h1: "\<not> set_has (visitedUrls crawl_start) ''http://f/down''"
    by (simp add: crawl_start_def set_has_def)
  have h2: "\<not> set_has (visitedUrls simple_crawl_start) ''http://f/down''"
    by (simp add: simple_crawl_start_def set_has_def)
  have h3: "startsWith ''http://f/down'' ''http://f/''"
    by (simp add: startsWith_def)
  have h4: "pageCount simple_crawl_start < 10"
    by (simp add: simple_crawl_start_def)
  have h5: "flaky_site ''http://f/down'' = FetchFailed"
    by (simp add: flaky_site_def)
  have h6: "flaky_site ''http://f/down'' = FetchFailed \<or> flaky_site ''http://f/down'' = LinksFailed []"
    by (simp add: h5)
  from page_failure_is_local [where render = flaky_site and fuel = 0 and html = "[]"
      and closes = "\<lambda>u. True" and rest = "[]", OF h1 h2 h3 h4 h6]
  have "crawlPage (Suc 0) flaky_site ''http://f/'' ''http://f/down'' crawl_start
       = Finished \<lparr>allUrls = [], visitedUrls = [''http://f/down''], htmlSnapshots = []\<rparr>"
    and "simple_crawlPage (Suc 0) flaky_site (\<lambda>u. True) ''http://f/'' 10 ''http://f/down''
         simple_crawl_start
       = Finished \<lparr>allUrls = [], visitedUrls = [''http://f/down''], htmlSnapshots = [],
                    pageCount = 1\<rparr>"
    by (simp_all add: h5 crawl_start_def simple_crawl_start_def del: crawlPage.simps simple_crawlPage.simps)
  with h1 h3 h4 h5 show ?thesis
    by (simp del: crawlPage.simps simple_crawlPage.simps)
qed

section \<open>The field differ\<close>

lemma comparePageInfo_fold:
  "comparePageInfo A B u =
     foldl (\<lambda>d f. compareField f (get_prop A f) (get_prop B f) d) \<lparr>url = u, changes = []\<rparr> tracked_fields"
  by (simp add: comparePageInfo_def tracked_fields_def Let_def)

lemma simple_comparePageInfo_fold:
  "simple_comparePageInfo A B u =
     foldl (\<lambda>d f. compareField f (get_prop A f) (get_prop B f) d) \<lparr>url = u, changes = []\<rparr> simple_tracked_fields"
  by (simp add: simple_comparePageInfo_def simple_tracked_fields_def Let_def)

lemma fold_compareField:
  "foldl (\<lambda>d f. compareField f (get_prop A f) (get_prop B f) d) d fs =
     d\<lparr>changes := changes d @ map (change_of A B) (filter (\<lambda>f. get_prop A f \<noteq> get_prop B f) fs)\<rparr>"
  by (induction fs arbitrary: d) (simp_all add: compareField_def change_of_def)

lemma comparePageInfo_changes:
  "comparePageInfo A B u =
     \<lparr>url = u, changes = map (change_of A B) (filter (\<lambda>f. get_prop A f \<noteq> get_prop B f) tracked_fields)\<rparr>"
  by (simp add: comparePageInfo_fold fold_compareField)

lemma simple_comparePageInfo_changes:
  "simple_comparePageInfo A B u =
     \<lparr>url = u, changes = map (change_of A B) (filter (\<lambda>f. get_prop A f \<noteq> get_prop B f) simple_tracked_fields)\<rparr>"
  by (simp add: simple_comparePageInfo_fold fold_compareField)

lemma swap_change_of: "swap_change (change_of A B f) = change_of B A f"
  by (simp add: swap_change_def change_of_def)

text \<open>
  Claim C7: \<^verbatim>\<open>comparePageInfo\<close> is symmetric under exchanging its two records: the change
  lists have the same length and the same fields in the same order, and each change of
  one is the change of the other with \<^verbatim>\<open>old\<close> and \<^verbatim>\<open>new\<close> exchanged.
\<close>

theorem comparePageInfo_swap:
  "changes (comparePageInfo B A u) = map swap_change (changes (comparePageInfo A B u))
   \<and> length (changes (comparePageInfo B A u)) = length (changes (comparePageInfo A B u))
   \<and> map field (changes (comparePageInfo B A u)) = map field (changes (comparePageInfo A B u))
   \<and> url (comparePageInfo B A u) = url (comparePageInfo A B u)"
proof -
  have eq: "(\<lambda>f. get_prop B f \<noteq> get_prop A f) = (\<lambda>f. get_prop A f \<noteq> get_prop B f)"
    by auto
  have swap: "changes (comparePageInfo B A u) = map swap_change (changes (comparePageInfo A B u))"
    by (simp add: comparePageInfo_changes eq swap_change_of o_def)
  have fields: "map field (map swap_change cs) = map field cs" for cs
    by (simp add: swap_change_def o_def)
  have "url (comparePageInfo B A u) = url (comparePageInfo A B u)"
    by (simp add: comparePageInfo_changes)
  with swap fields show ?thesis
    by (simp only: length_map simp_thms)
qed

lemma comparePages_only_changed:
  "list_all (\<lambda>p. changes p \<noteq> []) acc \<Longrightarrow>
     list_all (\<lambda>p. changes p \<noteq> []) (comparePages extract compare this oldData newData us acc)"
  by (induction us arbitrary: acc) (auto simp add: Let_def split: option.splits)

lemma compareWebsites_Some:
  "compareWebsites fuel renderOld renderNew setContent now this = Some r \<Longrightarrow>
     \<exists>oldData newData. r = compareCrawled (extractPageInfo setContent) comparePageInfo this now oldData newData"
  by (auto simp add: compareWebsites_def split: option.splits)

lemma simple_compareWebsites_Some:
  "simple_compareWebsites fuel renderOld closesOld renderNew closesNew setContent now this = Some r \<Longrightarrow>
     \<exists>oldData newData. r = compareCrawled (simple_extractPageInfo setContent) simple_comparePageInfo
        this now oldData newData"
  by (auto simp add: simple_compareWebsites_def split: option.splits)

lemma compareCrawled_only_changed:
  "list_all (\<lambda>p. changes p \<noteq> []) (pageComparisons (compareCrawled extract compare this now oldData newData))
   \<and> pagesWithChanges (summary (compareCrawled extract compare this now oldData newData))
       = length (pageComparisons (compareCrawled extract compare this now oldData newData))"
  by (simp add: compareCrawled_def Let_def comparePages_only_changed)

text \<open>
  Claim C8: a comparison result without changes never appears in \<^verbatim>\<open>pageComparisons\<close>.
  For the report of a run of either variant, every entry of \<^verbatim>\<open>pageComparisons\<close> has a
  change, \<^verbatim>\<open>summary.pagesWithChanges\<close> is the length of the list, and comparing a record
  with itself yields no change, so a common URL with equal records adds no entry.
\<close>

theorem unchanged_pages_are_left_out:
  assumes "compareWebsites fuel renderOld renderNew setContent now this = Some r
           \<or> simple_compareWebsites fuel renderOld closesOld renderNew closesNew setContent now this = Some r"
  shows "list_all (\<lambda>p. changes p \<noteq> []) (pageComparisons r)
         \<and> pagesWithChanges (summary r) = length (pageComparisons r)
         \<and> changes (comparePageInfo info info u) = []
         \<and> changes (simple_comparePageInfo info info u) = []"
proof -
  from assms have "\<exists>ex cmp oldData newData. r = compareCrawled ex cmp this now oldData newData"
  proof
    assume "compareWebsites fuel renderOld renderNew setContent now this = Some r"
    from compareWebsites_Some [OF this] show ?thesis by blast
  next
    assume "simple_compareWebsites fuel renderOld closesOld renderNew closesNew setContent now this = Some r"
    from simple_compareWebsites_Some [OF this] show ?thesis by blast
  qed
  then obtain ex cmp oldData newData
    where "r = compareCrawled ex cmp this now oldData newData"
    by blast
  then show ?thesis
    using compareCrawled_only_changed [of ex cmp this now oldData newData]
    by (simp add: comparePageInfo_changes simple_comparePageInfo_changes)
qed

theorem unchanged_pages_are_left_out_witness:
  "\<exists>r. compareWebsites 3 old_site new_site example_dom ''t'' example_comparator = Some r
     \<and> list_all (\<lambda>p. changes p \<noteq> []) (pageComparisons r)
     \<and> length (pageComparisons r) = 1
     \<and> pagesWithChanges (summary r) = 1"
proof -
  have "map_option (\<lambda>r. length (pageComparisons r))
          (compareWebsites 3 old_site new_site example_dom ''t'' example_comparator) = Some 1"
    by code_simp
  then obtain r where run: "compareWebsites 3 old_site new_site example_dom ''t'' example_comparator = Some r"
    and len: "length (pageComparisons r) = 1"
    by auto
  from unchanged_pages_are_left_out [OF disjI1 [OF run]] len run show ?thesis
    by simp
qed

section \<open>Field extraction\<close>

text \<open>
  Claim C4: \<^verbatim>\<open>extractPageInfo\<close> always returns a record, a field whose tag or attribute is
  absent is the empty string and never \<^verbatim>\<open>null\<close>, and a fault yields the all-empty record.
  The function does always return, a tag that is absent gives the empty string
  (\<open>getMetaContent_absent_tag\<close>) and a fault gives the all-empty record
  (\<open>extractPageInfo_fault\<close>). But \<^verbatim>\<open>getMetaContent\<close> guards the element only: for a
  \<^verbatim>\<open>meta\<close> element that is present without a \<^verbatim>\<open>content\<close> attribute it returns what
  \<^verbatim>\<open>getAttribute\<close> returns, \<^verbatim>\<open>null\<close>.
\<close>

theorem meta_without_content_extracts_null:
  "get_prop (extractPageInfo (\<lambda>html. Some meta_without_content)
       ''<head><meta name=\"description\"></head>'' ''http://o/'') ''description'' = Null
   \<and> get_prop (simple_extractPageInfo (\<lambda>html. Some meta_without_content)
       ''<head><meta name=\"description\"></head>'' ''http://o/'') ''description'' = Null
   \<and> Null \<noteq> Str ''''"
  by (simp add: extractPageInfo_def simple_extractPageInfo_def get_prop_def getMetaContent_def
      meta_without_content_def)

lemma extractPageInfo_fault:
  "setContent html = None \<Longrightarrow>
     extractPageInfo setContent html u = map (\<lambda>f. (f, Str [])) extracted_fields"
  by (simp add: extractPageInfo_def extracted_fields_def)

lemma simple_extractPageInfo_fault:
  "setContent html = None \<Longrightarrow>
     simple_extractPageInfo setContent html u = map (\<lambda>f. (f, Str [])) simple_tracked_fields"
  by (simp add: simple_extractPageInfo_def simple_tracked_fields_def)

lemma getMetaContent_absent_tag:
  "querySelector doc (''meta[name=\"'' @ name @ ''\"], meta[property=\"'' @ name @ ''\"]'') = None \<Longrightarrow>
     getMetaContent doc name = Str []"
  by (simp add: getMetaContent_def)

lemma getMetaContent_absent_attribute:
  "querySelector doc (''meta[name=\"'' @ name @ ''\"], meta[property=\"'' @ name @ ''\"]'') = Some meta \<Longrightarrow>
     getAttribute meta ''content'' = None \<Longrightarrow> getMetaContent doc name = Null"
  by (simp add: getMetaContent_def)

lemma extractPageInfo_keys:
  "map fst (extractPageInfo setContent html u) = extracted_fields"
  by (simp add: extractPageInfo_def extracted_fields_def split: option.splits)

lemma simple_extractPageInfo_keys:
  "map fst (simple_extractPageInfo setContent html u) = simple_tracked_fields"
  by (simp add: simple_extractPageInfo_def simple_tracked_fields_def split: option.splits)

text \<open>
  Claim C5 says that a record has exactly the fields the differ compares. The record of
  the full variant has fourteen fields. \<^verbatim>\<open>comparePageInfo\<close> reads thirteen
  of them: compared with the empty object, in which every property is \<^verbatim>\<open>undefined\<close>, the
  all-empty record differs in \<^verbatim>\<open>mainContent\<close> too, and no change names that field.
\<close>

theorem extracted_record_has_uncompared_field:
  "map fst (extractPageInfo (\<lambda>html. None) [] [])
     = [''title'', ''description'', ''keywords'', ''h1'', ''h2'', ''mainContent'',
        ''canonical'', ''robots'', ''ogTitle'', ''ogDescription'', ''ogImage'', ''twitterCard'',
        ''twitterTitle'', ''twitterDescription'']
   \<and> length (extractPageInfo (\<lambda>html. None) [] []) = 14
   \<and> map field (changes (comparePageInfo [] (extractPageInfo (\<lambda>html. None) [] []) []))
     = [''title'', ''description'', ''keywords'', ''h1'', ''h2'',
        ''canonical'', ''robots'', ''ogTitle'', ''ogDescription'', ''ogImage'', ''twitterCard'',
        ''twitterTitle'', ''twitterDescription'']
   \<and> length (changes (comparePageInfo [] (extractPageInfo (\<lambda>html. None) [] []) [])) = 13
   \<and> get_prop [] ''mainContent'' \<noteq> get_prop (extractPageInfo (\<lambda>html. None) [] []) ''mainContent''"
  by (simp add: extractPageInfo_def comparePageInfo_def compareField_def get_prop_def Let_def)

text \<open>
  Claim C5, amended: every record produced by extraction has the fixed fields of its
  variant, on the regular and on the fault path alike. In the reduced variant these are
  exactly the nine fields its differ compares. In the full variant they are the thirteen
  fields its differ compares and one more, \<^verbatim>\<open>mainContent\<close>, which is extracted and never
  compared: fourteen fields.
\<close>

theorem extracted_fields_fixed:
  "map fst (extractPageInfo setContent html u) = extracted_fields
   \<and> map fst (simple_extractPageInfo setContent html u) = simple_tracked_fields
   \<and> length (extractPageInfo setContent html u) = 14
   \<and> length (simple_extractPageInfo setContent html u) = 9
   \<and> comparePageInfo A B u'
       = \<lparr>url = u', changes = map (change_of A B)
            (filter (\<lambda>f. get_prop A f \<noteq> get_prop B f) tracked_fields)\<rparr>
   \<and> simple_comparePageInfo A B u'
       = \<lparr>url = u', changes = map (change_of A B)
            (filter (\<lambda>f. get_prop A f \<noteq> get_prop B f) simple_tracked_fields)\<rparr>
   \<and> remove1 ''mainContent'' extracted_fields = tracked_fields
   \<and> length tracked_fields = 13"
proof -
  have "length (map fst (extractPageInfo setContent html u)) = 14"
    unfolding extractPageInfo_keys by (simp add: extracted_fields_def)
  then have "length (extractPageInfo setContent html u) = 14"
    by simp
  moreover have "length (map fst (simple_extractPageInfo setContent html u)) = 9"
    unfolding simple_extractPageInfo_keys by (simp add: simple_tracked_fields_def)
  then have "length (simple_extractPageInfo setContent html u) = 9"
    by simp
  moreover have "remove1 ''mainContent'' extracted_fields = tracked_fields"
    by (simp add: extracted_fields_def tracked_fields_def)
  moreover have "length tracked_fields = 13"
    by (simp add: tracked_fields_def)
  ultimately show ?thesis
    by (simp add: extractPageInfo_keys simple_extractPageInfo_keys comparePageInfo_changes
        simple_comparePageInfo_changes)
qed

section \<open>The report\<close>

text \<open>
  Claim C6 says that the report has a count for each compared field.
  \<^verbatim>\<open>seoImpact\<close> holds three counts. A page whose only change is in \<^verbatim>\<open>keywords\<close>, one of the
  thirteen compared fields, is a page with a change of that field, and all three counts of
  the report are zero.
\<close>

theorem seoImpact_ignores_keywords:
  "pagesChanging ''keywords'' (pageComparisons
      (compareCrawled (extractPageInfo keywords_dom) comparePageInfo example_comparator ''t''
         \<lparr>urls = [''http://o/''], snapshots = [(''http___o_'', ''shoes'')]\<rparr>
         \<lparr>urls = [''http://n/''], snapshots = [(''http___n_'', ''boots'')]\<rparr>)) = 1
   \<and> seoImpact
      (compareCrawled (extractPageInfo keywords_dom) comparePageInfo example_comparator ''t''
         \<lparr>urls = [''http://o/''], snapshots = [(''http___o_'', ''shoes'')]\<rparr>
         \<lparr>urls = [''http://n/''], snapshots = [(''http___n_'', ''boots'')]\<rparr>)
     = \<lparr>pagesWithTitleChanges = 0, pagesWithDescriptionChanges = 0, pagesWithCanonicalChanges = 0\<rparr>
   \<and> ''keywords'' \<in> set tracked_fields"
  by code_simp

lemma list_ex_field: "list_ex (\<lambda>c. field c = f) cs = (f \<in> set (map field cs))"
  by (induction cs) auto

text \<open>
  Claim C6, amended: the report counts the pages with a change for three of the compared
  fields, \<^verbatim>\<open>title\<close>, \<^verbatim>\<open>description\<close> and \<^verbatim>\<open>canonical\<close>; each of these counts is the number
  of results in \<^verbatim>\<open>pageComparisons\<close> that hold a change of the field. The five counts of
  the summary are the lengths of the two crawled URL lists and of the lists
  \<^verbatim>\<open>missingUrls\<close>, \<^verbatim>\<open>newUrls\<close> and \<^verbatim>\<open>pageComparisons\<close> of the report.
\<close>

theorem report_counts:
  "pagesWithTitleChanges (seoImpact (compareCrawled ex cmp this now oldData newData))
     = pagesChanging ''title'' (pageComparisons (compareCrawled ex cmp this now oldData newData))
   \<and> pagesWithDescriptionChanges (seoImpact (compareCrawled ex cmp this now oldData newData))
     = pagesChanging ''description'' (pageComparisons (compareCrawled ex cmp this now oldData newData))
   \<and> pagesWithCanonicalChanges (seoImpact (compareCrawled ex cmp this now oldData newData))
     = pagesChanging ''canonical'' (pageComparisons (compareCrawled ex cmp this now oldData newData))
   \<and> oldWebsiteUrls (summary (compareCrawled ex cmp this now oldData newData)) = length (urls oldData)
   \<and> newWebsiteUrls (summary (compareCrawled ex cmp this now oldData newData)) = length (urls newData)
   \<and> summary.missingUrls (summary (compareCrawled ex cmp this now oldData newData))
     = length (missingUrls (compareCrawled ex cmp this now oldData newData))
   \<and> summary.newUrls (summary (compareCrawled ex cmp this now oldData newData))
     = length (newUrls (compareCrawled ex cmp this now oldData newData))
   \<and> pagesWithChanges (summary (compareCrawled ex cmp this now oldData newData))
     = length (pageComparisons (compareCrawled ex cmp this now oldData newData))"
  by (simp add: compareCrawled_def Let_def pagesChanging_def list_ex_field)

section \<open>Snapshot keys\<close>

text \<open>
  Claim C10: the snapshot key is not injective. The old site has the pages
  \<^verbatim>\<open>http://o/a-b\<close> and \<^verbatim>\<open>http://o/a_b\<close>, with the same key. The crawl visits three pages and
  keeps two snapshots: under the shared key stands the markup of the page visited later.
  The title of \<^verbatim>\<open>a-b\<close> differs between the old and the new site, yet the report of the run
  lists the home page only, since for \<^verbatim>\<open>a-b\<close> the markup of \<^verbatim>\<open>a_b\<close> was compared on both
  sides.
\<close>

theorem colliding_snapshot_keys:
  "urlKey ''http://o/a-b'' = urlKey ''http://o/a_b''
   \<and> ''http://o/a-b'' \<noteq> ''http://o/a_b''
   \<and> crawlPage 3 old_site ''http://o/'' ''http://o/'' crawl_start
       = Finished \<lparr>allUrls = [''http://o/a-b'', ''http://o/a_b'', ''http://o/''],
                    visitedUrls = [''http://o/'', ''http://o/a-b'', ''http://o/a_b''],
                    htmlSnapshots = [(''http___o_'', ''o-home''), (''http___o_a_b'', ''o-under'')]\<rparr>
   \<and> old_site ''http://o/a-b'' = Loaded ''o-dash'' [''http://o/'']
   \<and> old_site ''http://o/a_b'' = Loaded ''o-under'' []
   \<and> map_option (\<lambda>r. map url (pageComparisons r))
         (compareWebsites 3 old_site new_site example_dom ''t'' example_comparator)
       = Some [''http://n/'']
   \<and> changes (comparePageInfo (extractPageInfo example_dom ''o-dash'' ''http://o/a-b'')
                (extractPageInfo example_dom ''n-dash'' ''http://n/a-b'') ''http://n/a-b'')
       = [\<lparr>field = ''title'', old = Str ''Dash'', new = Str ''Dash, edited'', type = ''content_change''\<rparr>]"
  by code_simp

end
